theory Spec2Isabelle
  imports Main "HOL-Library.Word" "HOL-Library.Code_Target_Nat"
begin

unbundle bit_operations_syntax

section \<open>Errors\<close>

type_synonym byte = "8 word"

text \<open>The multibase bases of go-multibase v0.2.0 (the \<open>Encoding\<close> constants).\<close>

datatype Encoding =
    Identity | Base2 | Base8 | Base10 | Base16 | Base16Upper
  | Base32 | Base32Upper | Base32pad | Base32padUpper
  | Base32hex | Base32hexUpper | Base32hexPad | Base32hexPadUpper
  | Base36 | Base36Upper | Base58BTC | Base58Flickr
  | Base64 | Base64url | Base64pad | Base64urlPad | Base256Emoji

text \<open>
  Every error value the package returns. The first seven are the package's sentinel errors
  (errors.go). The remaining ones are the errors built in place with \<open>fmt.Errorf\<close>, the
  wrappers (\<open>%w\<close>) carrying the wrapped error, and the errors of the libraries the
  package calls.
\<close>

datatype error =
    ErrInvalidDID
  | ErrInvalidKeyType
  | ErrInvalidSignature
  | ErrNoProvider
  | ErrNoAnchorMethod
  | ErrHardwareKey
  | ErrTODO
  | ErrInvalidDIDWrapped string
      \<comment> \<open>\<open>fmt.Errorf("%w: %s", ErrInvalidDID, s)\<close>\<close>
  | ErrNotKeyType
      \<comment> \<open>"decentralized identifier is not a 'key' type"\<close>
  | ErrDecodingMultibase error
      \<comment> \<open>"decoding multibase: %w"\<close>
  | ErrUnexpectedMultibase Encoding
      \<comment> \<open>"unexpected multibase encoding: %s"\<close>
  | ErrParsingKeyIdentifier error
      \<comment> \<open>"parsing did key identifier: %w"\<close>
  | ErrGetAnchorForDID error
      \<comment> \<open>"get anchor for did: %w"\<close>
  | ErrVarintOverflow | ErrVarintUnderflow | ErrVarintNotMinimal
      \<comment> \<open>go-varint\<close>
  | ErrMultibaseZeroLength | ErrUnsupportedEncoding
      \<comment> \<open>go-multibase\<close>
  | ErrBase58ZeroLength | ErrBase58InvalidDigit
      \<comment> \<open>mr-tron/base58\<close>
  | ErrExternal string
      \<comment> \<open>any other error of a library behind an interface\<close>

section \<open>DID values (did.go)\<close>

record DID =
  URI :: string

text \<open>
  \<open>strings.Split(s, sep)\<close> for a separator of one byte, the only way the package calls
  it (\<open>":"\<close>): the substrings between the separators, one more than there are
  separators, so the empty string splits into one empty substring.
\<close>

fun Split :: "string \<Rightarrow> char \<Rightarrow> string list" where
  "Split [] sep = [[]]"
| "Split (c # cs) sep =
     (if c = sep then [] # Split cs sep
      else (case Split cs sep of [] \<Rightarrow> [[c]] | p # ps \<Rightarrow> (c # p) # ps))"

definition Equal :: "DID \<Rightarrow> DID \<Rightarrow> bool" where
  "Equal did other = (URI did = URI other)"

definition Empty :: "DID \<Rightarrow> bool" where
  "Empty did = (URI did = [])"

definition String :: "DID \<Rightarrow> string" where
  "String did = URI did"

definition Method :: "DID \<Rightarrow> string" where
  "Method did =
     (let parts = Split (URI did) CHR '':''
      in if length parts = 3 then parts ! 1 else [])"

definition Identifier :: "DID \<Rightarrow> string" where
  "Identifier did =
     (let parts = Split (URI did) CHR '':''
      in if length parts = 3 then parts ! 2 else [])"

text \<open>The loop \<open>for _, part := range parts\<close> of \<open>FromString\<close>: is some part empty?\<close>

fun has_empty_part :: "string list \<Rightarrow> bool" where
  "has_empty_part [] = False"
| "has_empty_part (part # parts) = (if part = [] then True else has_empty_part parts)"

text \<open>\<open>FromString\<close> as src/did.go has it: the length check is \<open>len(parts) == 2\<close>.\<close>

definition FromString :: "string \<Rightarrow> error + DID" where
  "FromString s =
     (if s \<noteq> [] then
        (let parts = Split s CHR '':''
         in if length parts = 2 then Inl ErrInvalidDID
            else if has_empty_part parts then Inl ErrInvalidDID
            else Inr \<lparr>URI = s\<rparr>)
      else Inr \<lparr>URI = s\<rparr>)"

text \<open>
  The second copy of \<open>FromString\<close> in the sources (src/ledger.go, lines 221 to 240): the
  length check is \<open>len(parts) != 3\<close> and the error wraps \<open>ErrInvalidDID\<close> with the string.
\<close>

definition FromString_ne3 :: "string \<Rightarrow> error + DID" where
  "FromString_ne3 s =
     (if s \<noteq> [] then
        (let parts = Split s CHR '':''
         in if length parts \<noteq> 3 then Inl (ErrInvalidDIDWrapped s)
            else if has_empty_part parts then Inl (ErrInvalidDIDWrapped s)
            else Inr \<lparr>URI = s\<rparr>)
      else Inr \<lparr>URI = s\<rparr>)"

section \<open>Variable-length integers (go-varint v0.0.7)\<close>

text \<open>
  The module is a dependency of the package (go.mod), not one of its sources. The three
  functions the codec calls are written out as the module has them: \<open>UvarintSize\<close>,
  \<open>PutUvarint\<close> (the standard library's \<open>binary.PutUvarint\<close>) and \<open>FromUvarint\<close>.
\<close>

text \<open>\<open>bits.Len64\<close>: the number of bits needed to write \<open>x\<close>, 0 for 0.\<close>

fun bit_len :: "nat \<Rightarrow> nat" where
  "bit_len n = (if n = 0 then 0 else Suc (bit_len (n div 2)))"

definition Len64 :: "64 word \<Rightarrow> nat" where
  "Len64 x = bit_len (unat x)"

definition UvarintSize :: "64 word \<Rightarrow> nat" where
  "UvarintSize num =
     (let bits = Len64 num; q = bits div 7; r = bits mod 7
      in if r > 0 \<or> q = 0 then Suc q else q)"

text \<open>
  \<open>PutUvarint(buf, x)\<close> writes the encoding of \<open>x\<close> into \<open>buf\<close> from index 0 and returns
  the number of bytes written. A write past the end of the buffer panics in Go: the
  model returns \<open>None\<close> there.
\<close>

function PutUvarint_loop :: "byte list \<Rightarrow> nat \<Rightarrow> 64 word \<Rightarrow> (byte list \<times> nat) option" where
  "PutUvarint_loop buf i x =
     (if x \<ge> 0x80 then
        (if i < length buf
         then PutUvarint_loop (buf[i := ucast x OR 0x80]) (Suc i) (drop_bit 7 x)
         else None)
      else
        (if i < length buf then Some (buf[i := ucast x], Suc i) else None))"
  by pat_completeness auto
termination
proof (relation "measure (\<lambda>(buf, i, x). unat x)")
  show "wf (measure (\<lambda>(buf, i, x). unat x))" by simp
next
  fix buf :: "byte list" and i :: nat and x :: "64 word"
  assume "0x80 \<le> x"
  then have "unat x \<ge> 128" by (simp add: word_le_nat_alt)
  moreover have "unat (drop_bit 7 x) = unat x div 128"
    by (simp only: unat_drop_bit_eq) (simp add: drop_bit_eq_div)
  ultimately have "unat (drop_bit 7 x) < unat x" by simp
  then show "((buf[i := ucast x OR 0x80], Suc i, drop_bit 7 x), (buf, i, x))
              \<in> measure (\<lambda>(buf, i, x). unat x)"
    by simp
qed

definition PutUvarint :: "byte list \<Rightarrow> 64 word \<Rightarrow> (byte list \<times> nat) option" where
  "PutUvarint buf x = PutUvarint_loop buf 0 x"

text \<open>
  \<open>FromUvarint(buf)\<close> reads a value and the number of bytes read. The loop carries the
  index \<open>i\<close>, the value so far \<open>x\<close> and the shift \<open>s\<close>.
\<close>

fun FromUvarint_loop :: "byte list \<Rightarrow> nat \<Rightarrow> 64 word \<Rightarrow> nat \<Rightarrow> error + (64 word \<times> nat)" where
  "FromUvarint_loop [] i x s = Inl ErrVarintUnderflow"
| "FromUvarint_loop (b # bs) i x s =
     (if (i = 8 \<and> b \<ge> 0x80) \<or> i \<ge> 9 then Inl ErrVarintOverflow
      else if b < 0x80 then
        (if b = 0 \<and> s > 0 then Inl ErrVarintNotMinimal
         else Inr (x OR push_bit s (ucast b), Suc i))
      else FromUvarint_loop bs (Suc i) (x OR push_bit s (ucast (b AND 0x7f))) (s + 7))"

definition FromUvarint :: "byte list \<Rightarrow> error + (64 word \<times> nat)" where
  "FromUvarint buf = FromUvarint_loop buf 0 0 0"

section \<open>Base58 (mr-tron/base58 v1.2.0)\<close>

text \<open>
  A dependency of go-multibase, not one of the package's sources.
  The library converts between bases in place, on 32-bit limbs. The model states the
  function it computes, by the definition of the format: the bytes are read as one
  big-endian number and written in base 58 without leading zero digits, behind one
  \<open>1\<close> (the digit zero) for every leading zero byte.
\<close>

definition BTCAlphabet :: string where
  "BTCAlphabet = ''123456789ABCDEFGHJKLMNPQRSTUVWXYZabcdefghijkmnopqrstuvwxyz''"

text \<open>The value of a digit string, most significant digit first.\<close>

definition from_base :: "nat \<Rightarrow> nat list \<Rightarrow> nat" where
  "from_base b ds = foldl (\<lambda>a d. a * b + d) 0 ds"

text \<open>The digits of a number, most significant first, none for 0.\<close>

fun to_base :: "nat \<Rightarrow> nat \<Rightarrow> nat list" where
  "to_base b n = (if n = 0 \<or> b < 2 then [] else to_base b (n div b) @ [n mod b])"

declare to_base.simps [simp del]

text \<open>The decoding table of an alphabet: the position of a character, if it has one.\<close>

fun digit_of :: "string \<Rightarrow> char \<Rightarrow> nat option" where
  "digit_of [] c = None"
| "digit_of (a # as) c =
     (if a = c then Some 0 else (case digit_of as c of None \<Rightarrow> None | Some d \<Rightarrow> Some (Suc d)))"

fun digits_of :: "string \<Rightarrow> string \<Rightarrow> nat list option" where
  "digits_of alphabet [] = Some []"
| "digits_of alphabet (c # cs) =
     (case digit_of alphabet c of None \<Rightarrow> None
      | Some d \<Rightarrow> (case digits_of alphabet cs of None \<Rightarrow> None | Some ds \<Rightarrow> Some (d # ds)))"

definition b58_EncodeAlphabet :: "byte list \<Rightarrow> string \<Rightarrow> string" where
  "b58_EncodeAlphabet bin alphabet =
     (let zcount = length (takeWhile (\<lambda>b. b = 0) bin)
      in replicate zcount (alphabet ! 0)
         @ map (\<lambda>d. alphabet ! d) (to_base 58 (from_base 256 (map unat bin))))"

definition b58_DecodeAlphabet :: "string \<Rightarrow> string \<Rightarrow> error + byte list" where
  "b58_DecodeAlphabet str alphabet =
     (if str = [] then Inl ErrBase58ZeroLength
      else (case digits_of alphabet str of
              None \<Rightarrow> Inl ErrBase58InvalidDigit
            | Some ds \<Rightarrow>
                (let zcount = length (takeWhile (\<lambda>c. c = alphabet ! 0) str)
                 in Inr (replicate zcount 0 @ map of_nat (to_base 256 (from_base 58 ds))))))"

section \<open>Public keys and the libraries behind the codec\<close>

text \<open>
  The key type tags of the key library (\<open>pb.KeyType\<close> and the package \<open>crypto\<close>):
  the codec tells \<open>Ed25519\<close>, \<open>Secp256k1\<close> and \<open>Eth\<close> from every other value.
\<close>

datatype KeyType = RSA | Ed25519 | Secp256k1 | ECDSA | Eth | OtherKeyType nat

text \<open>
  \<open>crypto.PubKey\<close> is an interface. The codec calls two of its methods, \<open>Type()\<close> and
  \<open>Raw()\<close>; a key is modelled by what they return (\<open>Raw\<close> can fail).
\<close>

record PubKey =
  Type :: KeyType
  Raw :: "error + byte list"

text \<open>
  What the codec calls and the sources do not hold, taken as a parameter: the payload
  decoders of go-multibase for the bases other than base58btc and identity, and the three
  key-unmarshal routines (\<open>libp2p_crypto.UnmarshalEd25519PublicKey\<close>,
  \<open>libp2p_crypto.UnmarshalSecp256k1PublicKey\<close>, \<open>crypto.UnmarshalEthPublicKey\<close>).
\<close>

record library =
  decodePayload :: "Encoding \<Rightarrow> string \<Rightarrow> error + byte list"
  UnmarshalEd25519PublicKey :: "byte list \<Rightarrow> error + PubKey"
  UnmarshalSecp256k1PublicKey :: "byte list \<Rightarrow> error + PubKey"
  UnmarshalEthPublicKey :: "byte list \<Rightarrow> error + PubKey"

section \<open>Multibase (go-multibase v0.2.0)\<close>

text \<open>
  A dependency of the package (go.mod), not one of its sources; \<open>Encode\<close> and
  \<open>Decode\<close> are written out as far as the codec reaches them.
  The marker of a multibase string is its first rune. Every marker is one byte but the
  marker of \<open>Base256Emoji\<close> (U+1F680, four bytes in UTF-8). \<open>Decode\<close> has no case for
  \<open>Base8\<close> and \<open>Base10\<close>: their markers, like any other rune, are an unsupported
  encoding.
\<close>

definition markers :: "(char \<times> Encoding) list" where
  "markers =
     [(CHR 0x00, Identity), (CHR ''0'', Base2),
      (CHR ''f'', Base16), (CHR ''F'', Base16Upper),
      (CHR ''b'', Base32), (CHR ''B'', Base32Upper),
      (CHR ''c'', Base32pad), (CHR ''C'', Base32padUpper),
      (CHR ''v'', Base32hex), (CHR ''V'', Base32hexUpper),
      (CHR ''t'', Base32hexPad), (CHR ''T'', Base32hexPadUpper),
      (CHR ''k'', Base36), (CHR ''K'', Base36Upper),
      (CHR ''z'', Base58BTC), (CHR ''Z'', Base58Flickr),
      (CHR ''m'', Base64), (CHR ''u'', Base64url),
      (CHR ''M'', Base64pad), (CHR ''U'', Base64urlPad)]"

definition emoji_marker :: string where
  "emoji_marker = [CHR 0xF0, CHR 0x9F, CHR 0x9A, CHR 0x80]"

text \<open>The encoding a string is marked with, and the payload behind the marker.\<close>

definition split_marker :: "string \<Rightarrow> (Encoding \<times> string) option" where
  "split_marker data =
     (case data of
        [] \<Rightarrow> None
      | c # rest \<Rightarrow>
          (case map_of markers c of
             Some enc \<Rightarrow> Some (enc, rest)
           | None \<Rightarrow>
               if take 4 data = emoji_marker then Some (Base256Emoji, drop 4 data) else None))"

definition bytes_of_string :: "string \<Rightarrow> byte list" where
  "bytes_of_string s = map (\<lambda>c. of_nat (of_char c)) s"

text \<open>\<open>Encode(Base58BTC, data)\<close>, the only base the package encodes with.\<close>

definition mb_Encode_Base58BTC :: "byte list \<Rightarrow> error + string" where
  "mb_Encode_Base58BTC data = Inr (CHR ''z'' # b58_EncodeAlphabet data BTCAlphabet)"

definition mb_Decode :: "library \<Rightarrow> string \<Rightarrow> error + (Encoding \<times> byte list)" where
  "mb_Decode L data =
     (if data = [] then Inl ErrMultibaseZeroLength
      else (case split_marker data of
              None \<Rightarrow> Inl ErrUnsupportedEncoding
            | Some (enc, payload) \<Rightarrow>
                (case enc of
                   Identity \<Rightarrow> Inr (Identity, bytes_of_string payload)
                 | Base58BTC \<Rightarrow>
                     (case b58_DecodeAlphabet payload BTCAlphabet of
                        Inl err \<Rightarrow> Inl err
                      | Inr bytes \<Rightarrow> Inr (Base58BTC, bytes))
                 | _ \<Rightarrow>
                     (case decodePayload L enc payload of
                        Inl err \<Rightarrow> Inl err
                      | Inr bytes \<Rightarrow> Inr (enc, bytes)))))"

section \<open>The key codec (key.go)\<close>

definition multicodecKindEd25519PubKey :: "64 word" where
  "multicodecKindEd25519PubKey = 0xed"

definition multicodecKindSecp256k1PubKey :: "64 word" where
  "multicodecKindSecp256k1PubKey = 0xe7"

definition multicodecKindEthPubKey :: "64 word" where
  "multicodecKindEthPubKey = 0xef01"

definition keyPrefix :: string where
  "keyPrefix = ''did:key''"

definition HasPrefix :: "string \<Rightarrow> string \<Rightarrow> bool" where
  "HasPrefix s p = (length p \<le> length s \<and> take (length p) s = p)"

definition TrimPrefix :: "string \<Rightarrow> string \<Rightarrow> string" where
  "TrimPrefix s p = (if HasPrefix s p then drop (length p) s else s)"

text \<open>\<open>copy(dst[n:], src)\<close> for \<open>n \<le> len(dst)\<close>: as many bytes as fit.\<close>

definition copy_from :: "byte list \<Rightarrow> nat \<Rightarrow> byte list \<Rightarrow> byte list" where
  "copy_from dst n src = take n dst @ take (length dst - n) src @ drop (n + length src) dst"

text \<open>
  \<open>FormatKeyURI\<close> returns a string and has no error result. \<open>None\<close> stands for a
  run-time panic (\<open>PutUvarint\<close> writing past the buffer), \<open>Some\<close> for a return.
  The line the default branch of the switch writes to the log is not part of the model.
\<close>

definition FormatKeyURI :: "PubKey \<Rightarrow> string option" where
  "FormatKeyURI pubk =
     (case Raw pubk of
        Inl err \<Rightarrow> Some []
      | Inr raw \<Rightarrow>
          (case (case Type pubk of
                   Ed25519 \<Rightarrow> Some multicodecKindEd25519PubKey
                 | Secp256k1 \<Rightarrow> Some multicodecKindSecp256k1PubKey
                 | Eth \<Rightarrow> Some multicodecKindEthPubKey
                 | _ \<Rightarrow> None) of
             None \<Rightarrow> Some []
           | Some t \<Rightarrow>
               (let size = UvarintSize t;
                    data = replicate (size + length raw) 0
                in case PutUvarint data t of
                     None \<Rightarrow> None
                   | Some (data, n) \<Rightarrow>
                       (case mb_Encode_Base58BTC (copy_from data n raw) of
                          Inl err \<Rightarrow> Some []
                        | Inr b58BKeyStr \<Rightarrow> Some (keyPrefix @ '':'' @ b58BKeyStr)))))"

definition ParseKeyURI :: "library \<Rightarrow> string \<Rightarrow> error + PubKey" where
  "ParseKeyURI L uri =
     (if \<not> HasPrefix uri keyPrefix then Inl ErrNotKeyType
      else (case mb_Decode L (TrimPrefix uri (keyPrefix @ '':'')) of
              Inl err \<Rightarrow> Inl (ErrDecodingMultibase err)
            | Inr (enc, data) \<Rightarrow>
                if enc \<noteq> Base58BTC then Inl (ErrUnexpectedMultibase enc)
                else (case FromUvarint data of
                        Inl err \<Rightarrow> Inl err
                      | Inr (keyType, n) \<Rightarrow>
                          if keyType = multicodecKindEd25519PubKey
                            then UnmarshalEd25519PublicKey L (drop n data)
                          else if keyType = multicodecKindSecp256k1PubKey
                            then UnmarshalSecp256k1PublicKey L (drop n data)
                          else if keyType = multicodecKindEthPubKey
                            then UnmarshalEthPublicKey L (drop n data)
                          else Inl ErrInvalidKeyType)))"

definition FromPublicKey :: "PubKey \<Rightarrow> DID option" where
  "FromPublicKey pubk =
     (case FormatKeyURI pubk of None \<Rightarrow> None | Some uri \<Rightarrow> Some \<lparr>URI = uri\<rparr>)"

definition PublicKeyFromDID :: "library \<Rightarrow> DID \<Rightarrow> error + PubKey" where
  "PublicKeyFromDID L did =
     (if Method did \<noteq> ''key'' then Inl ErrInvalidDID
      else (case ParseKeyURI L (URI did) of
              Inl err \<Rightarrow> Inl (ErrParsingKeyIdentifier err)
            | Inr pubk \<Rightarrow> Inr pubk))"

section \<open>Anchors and their resolution (key.go, anchor.go)\<close>

text \<open>
  \<open>Anchor\<close> is an interface with one implementation, \<open>PublicKeyAnchor\<close>: a DID and a
  public key. A resolver returns an anchor or an error.
\<close>

record Anchor =
  anchor_did :: DID
  anchor_pubk :: PubKey

definition NewAnchor :: "DID \<Rightarrow> PubKey \<Rightarrow> Anchor" where
  "NewAnchor did pubk = \<lparr>anchor_did = did, anchor_pubk = pubk\<rparr>"

type_synonym GetAnchorFunc = "DID \<Rightarrow> error + Anchor"

definition makeKeyAnchor :: "library \<Rightarrow> GetAnchorFunc" where
  "makeKeyAnchor L did =
     (case PublicKeyFromDID L did of
        Inl err \<Rightarrow> Inl err
      | Inr pubk \<Rightarrow> Inr (NewAnchor did pubk))"

text \<open>The package variable \<open>anchorMethods\<close> as \<open>init\<close> leaves it.\<close>

definition init_anchorMethods :: "library \<Rightarrow> (string \<rightharpoonup> GetAnchorFunc)" where
  "init_anchorMethods L = [''key'' \<mapsto> makeKeyAnchor L]"

text \<open>\<open>GetAnchorForDID\<close> reads the package variable, here its first argument.\<close>

definition GetAnchorForDID :: "(string \<rightharpoonup> GetAnchorFunc) \<Rightarrow> DID \<Rightarrow> error + Anchor" where
  "GetAnchorForDID anchorMethods did =
     (case anchorMethods (Method did) of
        None \<Rightarrow> Inl ErrNoAnchorMethod
      | Some makeAnchor \<Rightarrow> makeAnchor did)"

section \<open>The trust context (context.go)\<close>

text \<open>
  Instants and durations in nanoseconds. \<open>t.Add(d)\<close> is \<open>t + d\<close> and \<open>t.Before(u)\<close> is
  \<open>t < u\<close>.
\<close>

type_synonym Time = int

definition anchorEntryTTL :: int where
  "anchorEntryTTL = 3600 * 1000000000"

record anchorEntry =
  anchor :: Anchor
  expire :: Time

text \<open>
  The two maps of \<open>BasicTrustContext\<close>. The context stores and returns providers without
  looking into them: their type is a parameter. Every entry is reached through the map
  alone (\<open>AddAnchor\<close> allocates it, nothing else keeps the pointer), so the map holds
  the entries themselves. The model runs one call at a time, which is what the mutex
  makes of the critical sections.
\<close>

record 'p BasicTrustContext =
  anchors :: "DID \<rightharpoonup> anchorEntry"
  providers :: "DID \<rightharpoonup> 'p"

definition NewTrustContext :: "'p BasicTrustContext" where
  "NewTrustContext = \<lparr>anchors = Map.empty, providers = Map.empty\<rparr>"

text \<open>Every operation takes the reading of \<open>time.Now()\<close> it makes as \<open>now\<close>.\<close>

definition getAnchor :: "Time \<Rightarrow> 'p BasicTrustContext \<Rightarrow> DID \<Rightarrow> Anchor option \<times> 'p BasicTrustContext" where
  "getAnchor now ctx did =
     (case anchors ctx did of
        Some entry \<Rightarrow>
          (Some (anchor entry),
           ctx\<lparr>anchors := (anchors ctx)(did \<mapsto> entry\<lparr>expire := now + anchorEntryTTL\<rparr>)\<rparr>)
      | None \<Rightarrow> (None, ctx))"

definition AddAnchor :: "Time \<Rightarrow> 'p BasicTrustContext \<Rightarrow> Anchor \<Rightarrow> 'p BasicTrustContext" where
  "AddAnchor now ctx a =
     ctx\<lparr>anchors := (anchors ctx)(anchor_did a \<mapsto> \<lparr>anchor = a, expire = now + anchorEntryTTL\<rparr>)\<rparr>"

text \<open>
  \<open>GetAnchor\<close> returns its result, the context it leaves and the calls of
  \<open>GetAnchorForDID\<close> it made (the DIDs it asked the resolver for, in order).
\<close>

definition GetAnchor ::
  "(string \<rightharpoonup> GetAnchorFunc) \<Rightarrow> Time \<Rightarrow> 'p BasicTrustContext \<Rightarrow> DID
   \<Rightarrow> (error + Anchor) \<times> 'p BasicTrustContext \<times> DID list" where
  "GetAnchor anchorMethods now ctx did =
     (case getAnchor now ctx did of
        (Some a, ctx') \<Rightarrow> (Inr a, ctx', [])
      | (None, ctx') \<Rightarrow>
          (case GetAnchorForDID anchorMethods did of
             Inl err \<Rightarrow> (Inl (ErrGetAnchorForDID err), ctx', [did])
           | Inr a \<Rightarrow> (Inr a, AddAnchor now ctx' a, [did])))"

definition GetProvider :: "'p BasicTrustContext \<Rightarrow> DID \<Rightarrow> error + 'p" where
  "GetProvider ctx did =
     (case providers ctx did of None \<Rightarrow> Inl ErrNoProvider | Some provider \<Rightarrow> Inr provider)"

text \<open>
  \<open>gcAnchorEntries\<close> ranges over the anchors map and deletes the entries that expired
  before \<open>now\<close>. Go fixes no order for the range: \<open>order\<close> is the order this run visits
  the keys of the map in.
\<close>

fun gc_loop :: "Time \<Rightarrow> DID list \<Rightarrow> (DID \<rightharpoonup> anchorEntry) \<Rightarrow> (DID \<rightharpoonup> anchorEntry)" where
  "gc_loop now [] m = m"
| "gc_loop now (k # ks) m =
     gc_loop now ks
       (case m k of
          None \<Rightarrow> m
        | Some e \<Rightarrow> if expire e < now then m(k := None) else m)"

definition gcAnchorEntries :: "DID list \<Rightarrow> Time \<Rightarrow> 'p BasicTrustContext \<Rightarrow> 'p BasicTrustContext" where
  "gcAnchorEntries order now ctx = ctx\<lparr>anchors := gc_loop now order (anchors ctx)\<rparr>"

section \<open>A stand-in for the libraries\<close>

text \<open>
  Concrete routines to run the codec with: the raw URL-safe base 64 decoder for the
  payloads marked \<open>u\<close> (the other parameterised bases are refused), Ed25519 keys as
  libp2p reads them (exactly 32 bytes), and Secp256k1 and Eth keys read from their
  compressed form (33 bytes behind a tag 2 or 3) without the check that the point is on
  the curve.
\<close>

definition base64url_alphabet :: string where
  "base64url_alphabet = ''ABCDEFGHIJKLMNOPQRSTUVWXYZabcdefghijklmnopqrstuvwxyz0123456789-_''"

definition base64url_raw_decode :: "string \<Rightarrow> error + byte list" where
  "base64url_raw_decode s =
     (case digits_of base64url_alphabet s of
        None \<Rightarrow> Inl (ErrExternal ''illegal base64 data'')
      | Some ds \<Rightarrow>
          if length ds mod 4 = 1 then Inl (ErrExternal ''illegal base64 data'')
          else (let nbytes = 6 * length ds div 8;
                    v = from_base 64 ds div 2 ^ (6 * length ds - 8 * nbytes)
                in Inr (map (\<lambda>i. of_nat (v div 256 ^ (nbytes - 1 - i))) [0..<nbytes])))"

definition compressed_point :: "byte list \<Rightarrow> bool" where
  "compressed_point data = (length data = 33 \<and> (take 1 data = [2] \<or> take 1 data = [3]))"

definition stand_in_library :: library where
  "stand_in_library =
     \<lparr>decodePayload =
        (\<lambda>enc s. if enc = Base64url then base64url_raw_decode s
                  else Inl (ErrExternal ''base not modelled'')),
      UnmarshalEd25519PublicKey =
        (\<lambda>data. if length data \<noteq> 32
                 then Inl (ErrExternal ''expect ed25519 public key data size to be 32'')
                 else Inr \<lparr>Type = Ed25519, Raw = Inr data\<rparr>),
      UnmarshalSecp256k1PublicKey =
        (\<lambda>data. if compressed_point data then Inr \<lparr>Type = Secp256k1, Raw = Inr data\<rparr>
                 else Inl (ErrExternal ''malformed public key'')),
      UnmarshalEthPublicKey =
        (\<lambda>data. if compressed_point data then Inr \<lparr>Type = Eth, Raw = Inr data\<rparr>
                 else Inl (ErrExternal ''malformed public key''))\<rparr>"

text \<open>
  The two stub keys of the package's tests (key\_test.go): one of an unknown type, one
  of type Ed25519 whose \<open>Raw()\<close> fails. And a key of each supported type, a table of anchor
  methods with the method \<open>foo\<close> the tests inject, and a context holding one anchor
  that expired, one that did not, and one provider.
\<close>

definition bogusKey :: PubKey where
  "bogusKey = \<lparr>Type = OtherKeyType 0xaa, Raw = Inr [1, 2, 3]\<rparr>"

definition badRawKey :: PubKey where
  "badRawKey = \<lparr>Type = Ed25519, Raw = Inl (ErrExternal ''raw failure'')\<rparr>"

definition test_key :: PubKey where
  "test_key = \<lparr>Type = Ed25519, Raw = Inr (replicate 32 7)\<rparr>"

definition test_point :: "byte list" where
  "test_point = 2 # replicate 32 1"

definition test_secp256k1_key :: PubKey where
  "test_secp256k1_key = \<lparr>Type = Secp256k1, Raw = Inr test_point\<rparr>"

definition test_eth_key :: PubKey where
  "test_eth_key = \<lparr>Type = Eth, Raw = Inr test_point\<rparr>"

definition test_anchorMethods :: "string \<rightharpoonup> GetAnchorFunc" where
  "test_anchorMethods =
     (init_anchorMethods stand_in_library)(''foo'' \<mapsto> (\<lambda>did. Inr (NewAnchor did test_key)))"

definition test_context :: "nat BasicTrustContext" where
  "test_context =
     \<lparr>anchors =
        [\<lparr>URI = ''did:key:old''\<rparr> \<mapsto>
           \<lparr>anchor = NewAnchor \<lparr>URI = ''did:key:old''\<rparr> test_key, expire = 5\<rparr>,
         \<lparr>URI = ''did:key:new''\<rparr> \<mapsto>
           \<lparr>anchor = NewAnchor \<lparr>URI = ''did:key:new''\<rparr> test_key, expire = 20\<rparr>],
      providers = [\<lparr>URI = ''did:key:me''\<rparr> \<mapsto> 0]\<rparr>"

section \<open>Properties of DID values\<close>

lemma Split_nonempty: "Split s sep \<noteq> []"
  by (induction s) (auto split: list.splits)

lemma has_empty_part_iff: "has_empty_part ps \<longleftrightarrow> [] \<in> set ps"
  by (induction ps) auto

text \<open>
  C9: for every DID whose URI does not split into exactly three colon-separated segments,
  \<open>Method\<close> and \<open>Identifier\<close> both return the empty string. Both are total functions
  returning a string: there is no error result.
\<close>

theorem Method_Identifier_empty_unless_three:
  "length (Split (URI did) CHR '':'') \<noteq> 3 \<Longrightarrow> Method did = [] \<and> Identifier did = []"
  by (simp add: Method_def Identifier_def Let_def)

theorem Method_Identifier_empty_unless_three_witness:
  "length (Split (URI \<lparr>URI = ''did:key''\<rparr>) CHR '':'') \<noteq> 3
   \<and> Method \<lparr>URI = ''did:key''\<rparr> = [] \<and> Identifier \<lparr>URI = ''did:key''\<rparr> = []"
  using Method_Identifier_empty_unless_three [of "\<lparr>URI = ''did:key''\<rparr>"] by simp

lemma Method_Identifier_examples:
  "Method \<lparr>URI = []\<rparr> = []" "Identifier \<lparr>URI = []\<rparr> = []"
  "Method \<lparr>URI = ''notaDID''\<rparr> = []" "Identifier \<lparr>URI = ''notaDID''\<rparr> = []"
  "Method \<lparr>URI = ''did::''\<rparr> = []" "Identifier \<lparr>URI = ''did::''\<rparr> = []"
  "Method \<lparr>URI = ''did:example:123''\<rparr> = ''example''"
  "Identifier \<lparr>URI = ''did:example:123''\<rparr> = ''123''"
  by (simp_all add: Method_def Identifier_def Let_def)

text \<open>
  C3: \<open>FromString\<close> of src/did.go accepts a string of four non-empty segments, which the
  claim (and the package's own test \<open>TestDID\<close>) says is rejected with \<open>ErrInvalidDID\<close>.
\<close>

theorem FromString_four_segments_accepted:
  "FromString ''did:example:123:456'' = Inr \<lparr>URI = ''did:example:123:456''\<rparr>"
  by (simp add: FromString_def Let_def)

lemma FromString_one_segment_accepted:
  "FromString ''notaDID'' = Inr \<lparr>URI = ''notaDID''\<rparr>"
  by (simp add: FromString_def Let_def)

lemma FromString_empty: "FromString [] = Inr \<lparr>URI = []\<rparr>"
  by (simp add: FromString_def)

lemma FromString_characterised:
  "FromString s =
     (if s \<noteq> [] \<and> (length (Split s CHR '':'') = 2 \<or> [] \<in> set (Split s CHR '':''))
      then Inl ErrInvalidDID else Inr \<lparr>URI = s\<rparr>)"
  by (simp add: FromString_def Let_def has_empty_part_iff)

lemma FromString_ne3_characterised:
  "FromString_ne3 s =
     (if s \<noteq> [] \<and> (length (Split s CHR '':'') \<noteq> 3 \<or> [] \<in> set (Split s CHR '':''))
      then Inl (ErrInvalidDIDWrapped s) else Inr \<lparr>URI = s\<rparr>)"
  by (simp add: FromString_ne3_def Let_def has_empty_part_iff)

section \<open>Positional notation\<close>

lemma from_base_snoc: "from_base b (ds @ [d]) = from_base b ds * b + d"
  by (simp add: from_base_def)

lemma to_base_0: "to_base b 0 = []"
  by (subst to_base.simps) simp

lemma to_base_step: "2 \<le> b \<Longrightarrow> n \<noteq> 0 \<Longrightarrow> to_base b n = to_base b (n div b) @ [n mod b]"
  by (subst to_base.simps) simp

lemma from_to_base: "2 \<le> b \<Longrightarrow> from_base b (to_base b n) = n"
proof (induction b n rule: to_base.induct)
  case (1 b n)
  show ?case
  proof (cases "n = 0")
    case True
    then show ?thesis by (simp add: to_base_0 from_base_def)
  next
    case False
    have "from_base b (to_base b (n div b)) = n div b"
      using 1(1) False 1(2) by auto
    then show ?thesis using False 1(2)
      by (simp add: to_base_step from_base_snoc)
  qed
qed

lemma to_base_lt: "d \<in> set (to_base b n) \<Longrightarrow> d < b"
proof (induction b n rule: to_base.induct)
  case (1 b n)
  show ?case
  proof (cases "n = 0 \<or> b < 2")
    case True
    with 1(2) show ?thesis by (subst (asm) to_base.simps) simp
  next
    case False
    then have "to_base b n = to_base b (n div b) @ [n mod b]" by (simp add: to_base_step)
    with 1(2) have "d \<in> set (to_base b (n div b)) \<or> d = n mod b" by auto
    then show ?thesis using 1(1) False by auto
  qed
qed

lemma to_base_Nil_iff: "2 \<le> b \<Longrightarrow> to_base b n = [] \<longleftrightarrow> n = 0"
  by (cases "n = 0") (simp_all add: to_base_0 to_base_step)

lemma to_base_hd: "2 \<le> b \<Longrightarrow> n \<noteq> 0 \<Longrightarrow> hd (to_base b n) \<noteq> 0"
proof (induction b n rule: to_base.induct)
  case (1 b n)
  have step: "to_base b n = to_base b (n div b) @ [n mod b]"
    using 1(2,3) by (rule to_base_step)
  show ?case
  proof (cases "n div b = 0")
    case True
    then have "n < b" using 1(2) by (simp add: div_eq_0_iff)
    then have "n mod b = n" by simp
    with True step 1(3) show ?thesis by (simp add: to_base_0)
  next
    case False
    with 1(2) have ne: "to_base b (n div b) \<noteq> []" by (simp add: to_base_Nil_iff)
    have "hd (to_base b (n div b)) \<noteq> 0"
      using 1(1) 1(2,3) False by auto
    with ne step show ?thesis by simp
  qed
qed

lemma from_base_zero_iff: "0 < b \<Longrightarrow> from_base b ds = 0 \<longleftrightarrow> (\<forall>d \<in> set ds. d = 0)"
proof (induction ds rule: rev_induct)
  case Nil
  then show ?case by (simp add: from_base_def)
next
  case (snoc x xs)
  then show ?case by (auto simp: from_base_snoc)
qed

lemma to_from_base:
  "2 \<le> b \<Longrightarrow> \<forall>d \<in> set ds. d < b \<Longrightarrow> to_base b (from_base b ds) = dropWhile (\<lambda>d. d = 0) ds"
proof (induction ds rule: rev_induct)
  case Nil
  then show ?case by (simp add: from_base_def to_base_0)
next
  case (snoc x xs)
  then have IH: "to_base b (from_base b xs) = dropWhile (\<lambda>d. d = 0) xs" and x: "x < b" by auto
  show ?case
  proof (cases "\<forall>d \<in> set xs. d = 0")
    case True
    with snoc(2) have z: "from_base b xs = 0" by (simp add: from_base_zero_iff)
    from True have dw: "dropWhile (\<lambda>d. d = 0) (xs @ [x]) = (if x = 0 then [] else [x])"
      by (simp add: dropWhile_append)
    have "to_base b x = (if x = 0 then [] else [x])"
      using x snoc(2) by (simp add: to_base_0 to_base_step)
    then show ?thesis using z dw by (simp add: from_base_snoc)
  next
    case False
    with snoc(2) have nz: "from_base b xs \<noteq> 0" by (simp add: from_base_zero_iff)
    from False have dw: "dropWhile (\<lambda>d. d = 0) (xs @ [x]) = dropWhile (\<lambda>d. d = 0) xs @ [x]"
      by (auto simp: dropWhile_append)
    have "from_base b xs * b + x \<noteq> 0" using nz snoc(2) by simp
    then have "to_base b (from_base b xs * b + x)
               = to_base b ((from_base b xs * b + x) div b) @ [(from_base b xs * b + x) mod b]"
      using snoc(2) by (intro to_base_step)
    also have "(from_base b xs * b + x) div b = from_base b xs" using x by simp
    also have "(from_base b xs * b + x) mod b = x" using x by simp
    finally show ?thesis by (simp add: from_base_snoc IH dw)
  qed
qed

lemma from_base_replicate_0: "from_base b (replicate z 0 @ ds) = from_base b ds"
  by (induction z) (simp_all add: from_base_def)

section \<open>Alphabets and decoding tables\<close>

lemma BTCAlphabet_length: "length BTCAlphabet = 58"
  by (simp add: BTCAlphabet_def)

lemma BTCAlphabet_distinct: "distinct BTCAlphabet"
  by (simp add: BTCAlphabet_def)

lemma digit_of_nth:
  "distinct alphabet \<Longrightarrow> d < length alphabet \<Longrightarrow> digit_of alphabet (alphabet ! d) = Some d"
proof (induction alphabet arbitrary: d)
  case Nil
  then show ?case by simp
next
  case (Cons a as)
  show ?case
  proof (cases d)
    case 0
    then show ?thesis by simp
  next
    case (Suc d')
    with Cons.prems have "d' < length as" and "as ! d' \<noteq> a" by auto
    with Cons Suc show ?thesis by simp
  qed
qed

lemma digits_of_map_nth:
  "distinct alphabet \<Longrightarrow> \<forall>d \<in> set ds. d < length alphabet \<Longrightarrow>
   digits_of alphabet (map (\<lambda>d. alphabet ! d) ds) = Some ds"
  by (induction ds) (simp_all add: digit_of_nth)

lemma takeWhile_replicate_append:
  "ys = [] \<or> hd ys \<noteq> x \<Longrightarrow> takeWhile (\<lambda>c. c = x) (replicate z x @ ys) = replicate z x"
  by (induction z) (auto simp: takeWhile_eq_Nil_iff)

lemma unat_byte_lt: "unat (b :: byte) < 256"
  using unsigned_less [of b, where ?'a = nat] by simp

section \<open>Base58 decodes what it encodes\<close>

text \<open>An empty input is the one exception: it encodes to the empty string, which the decoder refuses.\<close>

lemma b58_roundtrip:
  assumes ne: "bin \<noteq> []"
  shows "b58_DecodeAlphabet (b58_EncodeAlphabet bin BTCAlphabet) BTCAlphabet = Inr bin"
proof -
  define z where "z = length (takeWhile (\<lambda>b. b = 0) bin)"
  define rest where "rest = dropWhile (\<lambda>b. b = 0) bin"
  define N where "N = from_base 256 (map unat bin)"
  define ds where "ds = to_base 58 N"
  define str where "str = b58_EncodeAlphabet bin BTCAlphabet"
  have bin: "bin = replicate z 0 @ rest"
  proof -
    have "takeWhile (\<lambda>b. b = 0) bin = replicate z 0"
      unfolding z_def by (induction bin) auto
    then show ?thesis
      unfolding rest_def by (metis takeWhile_dropWhile_id)
  qed
  have str: "str = replicate z (BTCAlphabet ! 0) @ map (\<lambda>d. BTCAlphabet ! d) ds"
    by (simp add: str_def b58_EncodeAlphabet_def z_def ds_def N_def Let_def)
  have ds_lt: "\<forall>d \<in> set ds. d < length BTCAlphabet"
    using to_base_lt [of _ 58 N] by (auto simp: ds_def BTCAlphabet_length)
  have digits: "digits_of BTCAlphabet str = Some (replicate z 0 @ ds)"
  proof -
    have "digits_of BTCAlphabet (map (\<lambda>d. BTCAlphabet ! d) (replicate z 0 @ ds))
          = Some (replicate z 0 @ ds)"
      using ds_lt by (intro digits_of_map_nth BTCAlphabet_distinct) (auto simp: BTCAlphabet_length)
    then show ?thesis by (simp add: str)
  qed
  have dw: "dropWhile (\<lambda>d. d = 0) (map unat bin) = map unat rest"
    unfolding rest_def by (induction bin) (auto simp: unat_eq_0)
  have to256: "to_base 256 N = map unat rest"
    unfolding N_def using to_from_base [of 256 "map unat bin"] dw
    by (simp add: unat_byte_lt)
  have hd_ds: "map (\<lambda>d. BTCAlphabet ! d) ds = []
               \<or> hd (map (\<lambda>d. BTCAlphabet ! d) ds) \<noteq> BTCAlphabet ! 0"
  proof (cases "ds = []")
    case True
    then show ?thesis by simp
  next
    case False
    then have "N \<noteq> 0" by (auto simp: ds_def to_base_Nil_iff)
    then have "hd ds \<noteq> 0" unfolding ds_def by (intro to_base_hd) simp_all
    moreover have "hd ds < length BTCAlphabet" using ds_lt False by simp
    ultimately have "BTCAlphabet ! hd ds \<noteq> BTCAlphabet ! 0"
      using BTCAlphabet_distinct by (simp add: nth_eq_iff_index_eq BTCAlphabet_length)
    with False show ?thesis by (simp add: hd_map)
  qed
  have zc: "length (takeWhile (\<lambda>c. c = BTCAlphabet ! 0) str) = z"
    unfolding str using takeWhile_replicate_append [OF hd_ds] by simp
  have str_ne: "str \<noteq> []"
  proof
    assume "str = []"
    with str have "z = 0" and "ds = []" by auto
    then have "N = 0" by (simp add: ds_def to_base_Nil_iff)
    then have "to_base 256 N = []" by (simp add: to_base_0)
    with to256 have "rest = []" by simp
    with bin \<open>z = 0\<close> ne show False by simp
  qed
  have "from_base 58 (replicate z 0 @ ds) = N"
    by (simp add: from_base_replicate_0 ds_def from_to_base)
  then have "b58_DecodeAlphabet str BTCAlphabet = Inr (replicate z 0 @ map of_nat (map unat rest))"
    using str_ne digits zc to256 by (simp add: b58_DecodeAlphabet_def Let_def)
  also have "map of_nat (map unat rest) = rest"
    by (simp add: map_idI)
  finally show ?thesis using bin by (simp add: str_def)
qed

section \<open>Varints of the three tags\<close>

lemma replicate_2_plus: "replicate (2 + n) (0::byte) = 0 # 0 # replicate n 0"
  by (simp add: numeral_2_eq_2)

lemma replicate_3_plus: "replicate (3 + n) (0::byte) = 0 # 0 # 0 # replicate n 0"
  by (simp add: numeral_3_eq_3)

lemma UvarintSize_tags:
  "UvarintSize multicodecKindEd25519PubKey = 2"
  "UvarintSize multicodecKindSecp256k1PubKey = 2"
  "UvarintSize multicodecKindEthPubKey = 3"
  by (simp_all add: UvarintSize_def Len64_def multicodecKindEd25519PubKey_def
        multicodecKindSecp256k1PubKey_def multicodecKindEthPubKey_def)

lemma buffer_tags:
  "replicate (UvarintSize multicodecKindEd25519PubKey + n) (0::byte) = 0 # 0 # replicate n 0"
  "replicate (UvarintSize multicodecKindSecp256k1PubKey + n) (0::byte) = 0 # 0 # replicate n 0"
  "replicate (UvarintSize multicodecKindEthPubKey + n) (0::byte) = 0 # 0 # 0 # replicate n 0"
  by (simp_all add: UvarintSize_tags replicate_2_plus replicate_3_plus)

lemma PutUvarint_tags:
  "PutUvarint (0 # 0 # replicate n 0) multicodecKindEd25519PubKey
     = Some (0xed # 0x01 # replicate n 0, 2)"
  "PutUvarint (0 # 0 # replicate n 0) multicodecKindSecp256k1PubKey
     = Some (0xe7 # 0x01 # replicate n 0, 2)"
  "PutUvarint (0 # 0 # 0 # replicate n 0) multicodecKindEthPubKey
     = Some (0x81 # 0xde # 0x03 # replicate n 0, 3)"
  by (simp_all add: PutUvarint_def word_le_nat_alt
        multicodecKindEd25519PubKey_def multicodecKindSecp256k1PubKey_def
        multicodecKindEthPubKey_def)

lemma FromUvarint_tags:
  "FromUvarint (0xed # 0x01 # raw) = Inr (multicodecKindEd25519PubKey, 2)"
  "FromUvarint (0xe7 # 0x01 # raw) = Inr (multicodecKindSecp256k1PubKey, 2)"
  "FromUvarint (0x81 # 0xde # 0x03 # raw) = Inr (multicodecKindEthPubKey, 3)"
  by (simp_all add: FromUvarint_def multicodecKindEd25519PubKey_def
        multicodecKindSecp256k1PubKey_def multicodecKindEthPubKey_def)

lemma copy_from_tags:
  "copy_from (a # b # replicate (length raw) 0) 2 raw = a # b # raw"
  "copy_from (a # b # c # replicate (length raw) 0) 3 raw = a # b # c # raw"
  by (simp_all add: copy_from_def)

lemma tags_distinct:
  "multicodecKindEd25519PubKey \<noteq> multicodecKindSecp256k1PubKey"
  "multicodecKindEd25519PubKey \<noteq> multicodecKindEthPubKey"
  "multicodecKindSecp256k1PubKey \<noteq> multicodecKindEthPubKey"
  by (simp_all add: multicodecKindEd25519PubKey_def multicodecKindSecp256k1PubKey_def
        multicodecKindEthPubKey_def)

section \<open>What FormatKeyURI returns\<close>

lemma FormatKeyURI_Ed25519:
  "Raw pubk = Inr raw \<Longrightarrow> Type pubk = Ed25519 \<Longrightarrow>
   FormatKeyURI pubk = Some (''did:key:z'' @ b58_EncodeAlphabet (0xed # 0x01 # raw) BTCAlphabet)"
  by (simp add: FormatKeyURI_def Let_def buffer_tags PutUvarint_tags copy_from_tags
        mb_Encode_Base58BTC_def keyPrefix_def)

lemma FormatKeyURI_Secp256k1:
  "Raw pubk = Inr raw \<Longrightarrow> Type pubk = Secp256k1 \<Longrightarrow>
   FormatKeyURI pubk = Some (''did:key:z'' @ b58_EncodeAlphabet (0xe7 # 0x01 # raw) BTCAlphabet)"
  by (simp add: FormatKeyURI_def Let_def buffer_tags PutUvarint_tags copy_from_tags
        mb_Encode_Base58BTC_def keyPrefix_def)

lemma FormatKeyURI_Eth:
  "Raw pubk = Inr raw \<Longrightarrow> Type pubk = Eth \<Longrightarrow>
   FormatKeyURI pubk
     = Some (''did:key:z'' @ b58_EncodeAlphabet (0x81 # 0xde # 0x03 # raw) BTCAlphabet)"
  by (simp add: FormatKeyURI_def Let_def buffer_tags PutUvarint_tags copy_from_tags
        mb_Encode_Base58BTC_def keyPrefix_def)

lemma FormatKeyURI_unsupported:
  "Type pubk \<notin> {Ed25519, Secp256k1, Eth} \<or> isl (Raw pubk) \<Longrightarrow> FormatKeyURI pubk = Some []"
  by (cases "Raw pubk"; cases "Type pubk") (auto simp: FormatKeyURI_def)

lemma FormatKeyURI_returns: "\<exists>uri. FormatKeyURI pubk = Some uri"
proof (cases "Type pubk \<notin> {Ed25519, Secp256k1, Eth} \<or> isl (Raw pubk)")
  case True
  then show ?thesis by (simp add: FormatKeyURI_unsupported)
next
  case False
  then obtain raw where "Raw pubk = Inr raw" by (cases "Raw pubk") auto
  with False show ?thesis
    by (auto simp: FormatKeyURI_Ed25519 FormatKeyURI_Secp256k1 FormatKeyURI_Eth)
qed


section \<open>What ParseKeyURI returns\<close>

lemma ParseKeyURI_prefixed:
  "ParseKeyURI L (''did:key:'' @ rest) =
     (case mb_Decode L rest of
        Inl err \<Rightarrow> Inl (ErrDecodingMultibase err)
      | Inr (enc, data) \<Rightarrow>
          if enc \<noteq> Base58BTC then Inl (ErrUnexpectedMultibase enc)
          else (case FromUvarint data of
                  Inl err \<Rightarrow> Inl err
                | Inr (keyType, n) \<Rightarrow>
                    if keyType = multicodecKindEd25519PubKey
                      then UnmarshalEd25519PublicKey L (drop n data)
                    else if keyType = multicodecKindSecp256k1PubKey
                      then UnmarshalSecp256k1PublicKey L (drop n data)
                    else if keyType = multicodecKindEthPubKey
                      then UnmarshalEthPublicKey L (drop n data)
                    else Inl ErrInvalidKeyType))"
  by (simp add: ParseKeyURI_def HasPrefix_def TrimPrefix_def keyPrefix_def)

lemma mb_Decode_Base58BTC:
  "mb_Decode L (CHR ''z'' # payload) =
     (case b58_DecodeAlphabet payload BTCAlphabet of
        Inl err \<Rightarrow> Inl err
      | Inr bytes \<Rightarrow> Inr (Base58BTC, bytes))"
  by (simp add: mb_Decode_def split_marker_def markers_def)

lemma mb_Decode_Encode:
  "bin \<noteq> [] \<Longrightarrow> mb_Decode L (CHR ''z'' # b58_EncodeAlphabet bin BTCAlphabet) = Inr (Base58BTC, bin)"
  by (simp add: mb_Decode_Base58BTC b58_roundtrip)

lemma ParseKeyURI_Ed25519:
  "ParseKeyURI L (''did:key:z'' @ b58_EncodeAlphabet (0xed # 0x01 # raw) BTCAlphabet)
     = UnmarshalEd25519PublicKey L raw"
  using ParseKeyURI_prefixed [of L "CHR ''z'' # b58_EncodeAlphabet (0xed # 0x01 # raw) BTCAlphabet"]
  by (simp add: mb_Decode_Encode FromUvarint_tags)

lemma ParseKeyURI_Secp256k1:
  "ParseKeyURI L (''did:key:z'' @ b58_EncodeAlphabet (0xe7 # 0x01 # raw) BTCAlphabet)
     = UnmarshalSecp256k1PublicKey L raw"
  using ParseKeyURI_prefixed [of L "CHR ''z'' # b58_EncodeAlphabet (0xe7 # 0x01 # raw) BTCAlphabet"]
  by (simp add: mb_Decode_Encode FromUvarint_tags tags_distinct tags_distinct [symmetric])

lemma ParseKeyURI_Eth:
  "ParseKeyURI L (''did:key:z'' @ b58_EncodeAlphabet (0x81 # 0xde # 0x03 # raw) BTCAlphabet)
     = UnmarshalEthPublicKey L raw"
  using ParseKeyURI_prefixed
          [of L "CHR ''z'' # b58_EncodeAlphabet (0x81 # 0xde # 0x03 # raw) BTCAlphabet"]
  by (simp add: mb_Decode_Encode FromUvarint_tags tags_distinct tags_distinct [symmetric])

text \<open>The codec hands the raw bytes of a key to the unmarshal routine of its type.\<close>

lemma Parse_Format:
  assumes "Raw pubk = Inr raw"
  shows "Type pubk = Ed25519 \<Longrightarrow>
           \<exists>uri. FormatKeyURI pubk = Some uri \<and> uri \<noteq> []
                 \<and> ParseKeyURI L uri = UnmarshalEd25519PublicKey L raw"
    and "Type pubk = Secp256k1 \<Longrightarrow>
           \<exists>uri. FormatKeyURI pubk = Some uri \<and> uri \<noteq> []
                 \<and> ParseKeyURI L uri = UnmarshalSecp256k1PublicKey L raw"
    and "Type pubk = Eth \<Longrightarrow>
           \<exists>uri. FormatKeyURI pubk = Some uri \<and> uri \<noteq> []
                 \<and> ParseKeyURI L uri = UnmarshalEthPublicKey L raw"
  using assms
  by (simp_all add: FormatKeyURI_Ed25519 FormatKeyURI_Secp256k1 FormatKeyURI_Eth
        ParseKeyURI_Ed25519 [simplified] ParseKeyURI_Secp256k1 [simplified]
        ParseKeyURI_Eth [simplified])

text \<open>
  C1: for a key of type Ed25519, Secp256k1 or Eth whose \<open>Raw()\<close> returns \<open>raw\<close>, and
  which the unmarshal routine of its type reads back from \<open>raw\<close> as a key with these raw
  bytes (what the key library does with its own keys), \<open>FormatKeyURI\<close> returns a
  non-empty URI and \<open>ParseKeyURI\<close> of that URI succeeds with a key whose raw bytes are
  those of the key.
\<close>

theorem key_codec_round_trip:
  assumes "Raw pubk = Inr raw"
    and "Type pubk = Ed25519 \<and> UnmarshalEd25519PublicKey L raw = Inr pubk'
         \<or> Type pubk = Secp256k1 \<and> UnmarshalSecp256k1PublicKey L raw = Inr pubk'
         \<or> Type pubk = Eth \<and> UnmarshalEthPublicKey L raw = Inr pubk'"
    and "Raw pubk' = Inr raw"
  shows "\<exists>uri. FormatKeyURI pubk = Some uri \<and> uri \<noteq> []
               \<and> ParseKeyURI L uri = Inr pubk' \<and> Raw pubk' = Raw pubk"
  using assms Parse_Format [OF assms(1), of L] by auto


text \<open>The round trip at a key of 32 bytes, with the stand-in library.\<close>

theorem key_codec_round_trip_witness:
  "(\<exists>uri. FormatKeyURI test_key = Some uri \<and> uri \<noteq> []
          \<and> ParseKeyURI stand_in_library uri = Inr test_key)
   \<and> (\<exists>uri. FormatKeyURI test_secp256k1_key = Some uri \<and> uri \<noteq> []
          \<and> ParseKeyURI stand_in_library uri = Inr test_secp256k1_key)
   \<and> (\<exists>uri. FormatKeyURI test_eth_key = Some uri \<and> uri \<noteq> []
          \<and> ParseKeyURI stand_in_library uri = Inr test_eth_key)"
  using key_codec_round_trip [of test_key "replicate 32 7" stand_in_library test_key]
    key_codec_round_trip [of test_secp256k1_key test_point stand_in_library test_secp256k1_key]
    key_codec_round_trip [of test_eth_key test_point stand_in_library test_eth_key]
  by (simp add: test_key_def test_secp256k1_key_def test_eth_key_def test_point_def
        stand_in_library_def compressed_point_def)

text \<open>The URI of a supported key starts with \<open>did:key:z\<close>.\<close>

lemma FormatKeyURI_prefix:
  "Raw pubk = Inr raw \<Longrightarrow> Type pubk \<in> {Ed25519, Secp256k1, Eth} \<Longrightarrow>
   \<exists>uri. FormatKeyURI pubk = Some uri \<and> HasPrefix uri ''did:key:z''"
  by (auto simp: FormatKeyURI_Ed25519 FormatKeyURI_Secp256k1 FormatKeyURI_Eth HasPrefix_def)

section \<open>Rejected URIs\<close>

lemma HasPrefix_append: "HasPrefix s p \<longleftrightarrow> (\<exists>rest. s = p @ rest)"
  unfolding HasPrefix_def
  by (metis append_eq_conv_conj append_take_drop_id length_append le_add1)

text \<open>
  C5, amended: \<open>ParseKeyURI\<close> fails on every URI that does not start with
  \<open>did:key:\<close>. The error is the invalid-method error, before any multibase decoding,
  when the URI does not start with \<open>did:key\<close> (the prefix the code tests, without the
  colon); when it starts with \<open>did:key\<close> but not with \<open>did:key:\<close>, nothing is trimmed,
  the whole URI goes to the multibase decoder, and the error is its
  unsupported-encoding error, wrapped.
\<close>

theorem ParseKeyURI_other_prefix:
  assumes "\<not> HasPrefix uri ''did:key:''"
  shows "ParseKeyURI L uri =
           (if HasPrefix uri ''did:key''
            then Inl (ErrDecodingMultibase ErrUnsupportedEncoding)
            else Inl ErrNotKeyType)"
proof (cases "HasPrefix uri ''did:key''")
  case False
  then show ?thesis by (simp add: ParseKeyURI_def keyPrefix_def)
next
  case True
  then obtain rest where uri: "uri = ''did:key'' @ rest"
    by (auto simp: HasPrefix_append)
  have "split_marker uri = None"
    by (simp add: uri split_marker_def markers_def emoji_marker_def)
  then have "mb_Decode L uri = Inl ErrUnsupportedEncoding"
    by (simp add: mb_Decode_def uri)
  moreover have "TrimPrefix uri (keyPrefix @ '':'') = uri"
    using assms by (simp add: TrimPrefix_def keyPrefix_def)
  ultimately show ?thesis
    using True by (simp add: ParseKeyURI_def keyPrefix_def)
qed

theorem ParseKeyURI_other_prefix_witness:
  "\<not> HasPrefix ''did:web:xyz'' ''did:key:''
   \<and> ParseKeyURI stand_in_library ''did:web:xyz'' = Inl ErrNotKeyType"
  using ParseKeyURI_other_prefix [of "''did:web:xyz''" stand_in_library]
  by (simp add: HasPrefix_def)

text \<open>
  C5 as stated fails at \<open>did:keyring:z6Mk\<close>: the prefix is not \<open>did:key:\<close>, and the error
  is not the invalid-method error but the multibase decoder's.
\<close>

theorem ParseKeyURI_keyring_counterexample:
  "\<not> HasPrefix ''did:keyring:z6Mk'' ''did:key:''
   \<and> ParseKeyURI stand_in_library ''did:keyring:z6Mk''
       = Inl (ErrDecodingMultibase ErrUnsupportedEncoding)
   \<and> ParseKeyURI stand_in_library ''did:keyring:z6Mk'' \<noteq> Inl ErrNotKeyType"
  by (simp add: ParseKeyURI_def HasPrefix_def TrimPrefix_def keyPrefix_def mb_Decode_def
        split_marker_def markers_def emoji_marker_def)

text \<open>
  C6: when the remainder of a URI behind \<open>did:key:\<close> decodes as multibase with an
  encoding other than base58btc, \<open>ParseKeyURI\<close> fails with the
  unexpected-multibase-encoding error naming that encoding.
\<close>

theorem ParseKeyURI_other_base:
  "mb_Decode L rest = Inr (enc, data) \<Longrightarrow> enc \<noteq> Base58BTC \<Longrightarrow>
   ParseKeyURI L (''did:key:'' @ rest) = Inl (ErrUnexpectedMultibase enc)"
  using ParseKeyURI_prefixed [of L rest] by simp

lemma base64url_Hello: "base64url_raw_decode ''SGVsbG8'' = Inr (bytes_of_string ''Hello'')"
  by (simp add: base64url_raw_decode_def base64url_alphabet_def from_base_def
        bytes_of_string_def Let_def upt_conv_Cons)

lemma mb_Decode_u_Hello:
  "mb_Decode stand_in_library ''uSGVsbG8'' = Inr (Base64url, bytes_of_string ''Hello'')"
  using base64url_Hello
  by (simp add: mb_Decode_def split_marker_def markers_def stand_in_library_def)

theorem ParseKeyURI_other_base_witness:
  "mb_Decode stand_in_library ''uSGVsbG8'' = Inr (Base64url, bytes_of_string ''Hello'')
   \<and> Base64url \<noteq> Base58BTC
   \<and> ParseKeyURI stand_in_library ''did:key:uSGVsbG8'' = Inl (ErrUnexpectedMultibase Base64url)"
  using ParseKeyURI_other_base [OF mb_Decode_u_Hello] mb_Decode_u_Hello
  by simp

text \<open>
  C7: for a payload that decodes as base58btc and starts with a varint tag, the tags
  0xED, 0xE7 and 0xEF01 hand the bytes behind the tag to the unmarshal routine for
  Ed25519, Secp256k1 and Eth keys, and every other tag fails with \<open>ErrInvalidKeyType\<close>.
\<close>

theorem ParseKeyURI_dispatch:
  assumes "mb_Decode L rest = Inr (Base58BTC, data)"
    and "FromUvarint data = Inr (keyType, n)"
  shows "(keyType = 0xed \<longrightarrow>
            ParseKeyURI L (''did:key:'' @ rest) = UnmarshalEd25519PublicKey L (drop n data))
       \<and> (keyType = 0xe7 \<longrightarrow>
            ParseKeyURI L (''did:key:'' @ rest) = UnmarshalSecp256k1PublicKey L (drop n data))
       \<and> (keyType = 0xef01 \<longrightarrow>
            ParseKeyURI L (''did:key:'' @ rest) = UnmarshalEthPublicKey L (drop n data))
       \<and> (keyType \<notin> {0xed, 0xe7, 0xef01} \<longrightarrow>
            ParseKeyURI L (''did:key:'' @ rest) = Inl ErrInvalidKeyType)"
  using assms ParseKeyURI_prefixed [of L rest]
  by (simp add: multicodecKindEd25519PubKey_def multicodecKindSecp256k1PubKey_def
        multicodecKindEthPubKey_def)

lemma to_base_numeral:
  "to_base b (numeral k) =
     (if b < 2 then [] else to_base b (numeral k div b) @ [numeral k mod b])"
  by (subst to_base.simps) simp

lemma b58_tPqG: "b58_DecodeAlphabet ''tPqG'' BTCAlphabet = Inr [0x99, 0x01, 0xff]"
  by (simp add: b58_DecodeAlphabet_def BTCAlphabet_def from_base_def Let_def
        to_base_numeral to_base_0)

lemma mb_Decode_ztPqG: "mb_Decode L ''ztPqG'' = Inr (Base58BTC, [0x99, 0x01, 0xff])"
  by (simp add: mb_Decode_Base58BTC b58_tPqG)

lemma FromUvarint_0x99: "FromUvarint [0x99, 0x01, 0xff] = Inr (0x99, 2)"
  by (simp add: FromUvarint_def)

theorem ParseKeyURI_dispatch_witness:
  "mb_Decode stand_in_library ''ztPqG'' = Inr (Base58BTC, [0x99, 0x01, 0xff])
   \<and> FromUvarint [0x99, 0x01, 0xff] = Inr (0x99, 2)
   \<and> ParseKeyURI stand_in_library ''did:key:ztPqG'' = Inl ErrInvalidKeyType"
  using ParseKeyURI_dispatch [OF mb_Decode_ztPqG FromUvarint_0x99, of stand_in_library]
    mb_Decode_ztPqG [of stand_in_library] FromUvarint_0x99
  by simp

section \<open>Keys the codec does not encode\<close>

text \<open>
  C4: for a key whose type is none of Ed25519, Secp256k1 and Eth, and for a key whose
  \<open>Raw()\<close> fails, \<open>FormatKeyURI\<close> returns the empty string (it returns: no panic, and
  its signature has no error result).
\<close>

theorem FormatKeyURI_empty_for_unsupported:
  "Type pubk \<notin> {Ed25519, Secp256k1, Eth} \<or> isl (Raw pubk) \<Longrightarrow> FormatKeyURI pubk = Some []"
  by (rule FormatKeyURI_unsupported)

theorem FormatKeyURI_empty_for_unsupported_witness:
  "Type bogusKey \<notin> {Ed25519, Secp256k1, Eth} \<and> FormatKeyURI bogusKey = Some []
   \<and> isl (Raw badRawKey) \<and> FormatKeyURI badRawKey = Some []"
  using FormatKeyURI_empty_for_unsupported [of bogusKey]
    FormatKeyURI_empty_for_unsupported [of badRawKey]
  by (simp add: bogusKey_def badRawKey_def)

text \<open>
  C10: \<open>FromPublicKey\<close> returns a DID for every key (it cannot panic and has no error
  result), and the URI of that DID is what \<open>FormatKeyURI\<close> returned. For a key of an
  unsupported type, or whose \<open>Raw()\<close> fails, it is the empty DID.
\<close>

theorem FromPublicKey_total:
  "\<exists>did. FromPublicKey pubk = Some did \<and> FormatKeyURI pubk = Some (URI did)
         \<and> (Type pubk \<notin> {Ed25519, Secp256k1, Eth} \<or> isl (Raw pubk)
              \<longrightarrow> URI did = [] \<and> Empty did)"
proof -
  obtain uri where uri: "FormatKeyURI pubk = Some uri"
    using FormatKeyURI_returns by blast
  then have "FromPublicKey pubk = Some \<lparr>URI = uri\<rparr>"
    by (simp add: FromPublicKey_def)
  moreover have "uri = []"
    if "Type pubk \<notin> {Ed25519, Secp256k1, Eth} \<or> isl (Raw pubk)"
    using FormatKeyURI_unsupported [OF that] uri by simp
  ultimately show ?thesis
    using uri by (auto simp: Empty_def)
qed

theorem FromPublicKey_total_witness:
  "Type bogusKey \<notin> {Ed25519, Secp256k1, Eth}
   \<and> (\<exists>did. FromPublicKey bogusKey = Some did \<and> URI did = [] \<and> Empty did)"
  using FromPublicKey_total [of bogusKey]
  by (auto simp: bogusKey_def)

section \<open>The trust context: expiry and lookup\<close>

lemma gc_loop_lookup:
  "gc_loop now ks m k =
     (if k \<in> set ks
      then (case m k of None \<Rightarrow> None | Some e \<Rightarrow> if expire e < now then None else Some e)
      else m k)"
proof (induction ks arbitrary: m)
  case Nil
  then show ?case by simp
next
  case (Cons k' ks)
  show ?case
    by (cases "m k'") (auto simp: Cons.IH split: option.splits)
qed

text \<open>
  C8: whatever the order in which the range visits the keys of the anchors map,
  \<open>gcAnchorEntries\<close> leaves exactly the entries whose expiry is not before \<open>now\<close>, each
  as it was, and leaves the providers map as it was.
\<close>

theorem gcAnchorEntries_removes_expired:
  assumes "set order = dom (anchors ctx)"
  shows "anchors (gcAnchorEntries order now ctx)
           = (\<lambda>k. case anchors ctx k of
                     None \<Rightarrow> None
                   | Some e \<Rightarrow> if expire e < now then None else Some e)
         \<and> providers (gcAnchorEntries order now ctx) = providers ctx"
proof -
  have "gc_loop now order (anchors ctx) k
          = (case anchors ctx k of
               None \<Rightarrow> None
             | Some e \<Rightarrow> if expire e < now then None else Some e)" for k
    using assms by (auto simp: gc_loop_lookup split: option.splits)
  then show ?thesis by (simp add: gcAnchorEntries_def fun_eq_iff)
qed

theorem gcAnchorEntries_removes_expired_witness:
  "set [\<lparr>URI = ''did:key:new''\<rparr>, \<lparr>URI = ''did:key:old''\<rparr>] = dom (anchors test_context)
   \<and> anchors (gcAnchorEntries [\<lparr>URI = ''did:key:new''\<rparr>, \<lparr>URI = ''did:key:old''\<rparr>] 10 test_context)
        \<lparr>URI = ''did:key:old''\<rparr> = None
   \<and> anchors (gcAnchorEntries [\<lparr>URI = ''did:key:new''\<rparr>, \<lparr>URI = ''did:key:old''\<rparr>] 10 test_context)
        \<lparr>URI = ''did:key:new''\<rparr>
       = Some \<lparr>anchor = NewAnchor \<lparr>URI = ''did:key:new''\<rparr> test_key, expire = 20\<rparr>
   \<and> providers (gcAnchorEntries [\<lparr>URI = ''did:key:new''\<rparr>, \<lparr>URI = ''did:key:old''\<rparr>] 10 test_context)
       = providers test_context"
proof -
  have d: "set [\<lparr>URI = ''did:key:new''\<rparr>, \<lparr>URI = ''did:key:old''\<rparr>] = dom (anchors test_context)"
    by (auto simp: test_context_def)
  show ?thesis
    using gcAnchorEntries_removes_expired [OF d, of 10] d
    by (simp add: test_context_def)
qed

text \<open>
  C2: \<open>GetAnchor\<close> on a DID with an entry in the anchors map (expired or not) returns
  the cached anchor, sets the expiry of the entry to \<open>now\<close> plus the TTL and does not
  call the resolver. With no entry it calls the resolver once: on success it stores the
  resolved anchor, under the anchor's DID with expiry \<open>now\<close> plus the TTL, and returns
  it; on failure it returns the error wrapped and leaves the context as it was.
\<close>

theorem GetAnchor_cases:
  "(\<forall>e. anchors ctx did = Some e \<longrightarrow>
       GetAnchor M now ctx did
         = (Inr (anchor e),
            ctx\<lparr>anchors := (anchors ctx)(did \<mapsto> e\<lparr>expire := now + anchorEntryTTL\<rparr>)\<rparr>,
            []))
   \<and> (anchors ctx did = None \<longrightarrow>
        (\<forall>a. GetAnchorForDID M did = Inr a \<longrightarrow>
           GetAnchor M now ctx did
             = (Inr a,
                ctx\<lparr>anchors := (anchors ctx)(anchor_did a \<mapsto>
                                   \<lparr>anchor = a, expire = now + anchorEntryTTL\<rparr>)\<rparr>,
                [did]))
      \<and> (\<forall>err. GetAnchorForDID M did = Inl err \<longrightarrow>
           GetAnchor M now ctx did = (Inl (ErrGetAnchorForDID err), ctx, [did])))"
  by (simp add: GetAnchor_def getAnchor_def AddAnchor_def)

lemma GetAnchorForDID_foo:
  "GetAnchorForDID test_anchorMethods \<lparr>URI = ''did:foo:bar''\<rparr>
     = Inr (NewAnchor \<lparr>URI = ''did:foo:bar''\<rparr> test_key)"
  by (simp add: GetAnchorForDID_def test_anchorMethods_def Method_def Let_def)

lemma GetAnchorForDID_web:
  "GetAnchorForDID test_anchorMethods \<lparr>URI = ''did:web:example.com''\<rparr> = Inl ErrNoAnchorMethod"
  by (simp add: GetAnchorForDID_def test_anchorMethods_def init_anchorMethods_def Method_def
        Let_def)

theorem GetAnchor_cases_witness:
  "GetAnchor test_anchorMethods 100 test_context \<lparr>URI = ''did:key:old''\<rparr>
     = (Inr (NewAnchor \<lparr>URI = ''did:key:old''\<rparr> test_key),
        test_context\<lparr>anchors := (anchors test_context)(\<lparr>URI = ''did:key:old''\<rparr> \<mapsto>
           \<lparr>anchor = NewAnchor \<lparr>URI = ''did:key:old''\<rparr> test_key,
            expire = 100 + anchorEntryTTL\<rparr>)\<rparr>,
        [])
   \<and> GetAnchor test_anchorMethods 100 test_context \<lparr>URI = ''did:foo:bar''\<rparr>
     = (Inr (NewAnchor \<lparr>URI = ''did:foo:bar''\<rparr> test_key),
        test_context\<lparr>anchors := (anchors test_context)(\<lparr>URI = ''did:foo:bar''\<rparr> \<mapsto>
           \<lparr>anchor = NewAnchor \<lparr>URI = ''did:foo:bar''\<rparr> test_key,
            expire = 100 + anchorEntryTTL\<rparr>)\<rparr>,
        [\<lparr>URI = ''did:foo:bar''\<rparr>])
   \<and> GetAnchor test_anchorMethods 100 test_context \<lparr>URI = ''did:web:example.com''\<rparr>
     = (Inl (ErrGetAnchorForDID ErrNoAnchorMethod), test_context,
        [\<lparr>URI = ''did:web:example.com''\<rparr>])"
proof -
  have old: "anchors test_context \<lparr>URI = ''did:key:old''\<rparr>
             = Some \<lparr>anchor = NewAnchor \<lparr>URI = ''did:key:old''\<rparr> test_key, expire = 5\<rparr>"
    by (simp add: test_context_def)
  have foo: "anchors test_context \<lparr>URI = ''did:foo:bar''\<rparr> = None"
    by (simp add: test_context_def)
  have web: "anchors test_context \<lparr>URI = ''did:web:example.com''\<rparr> = None"
    by (simp add: test_context_def)
  show ?thesis
    using GetAnchor_cases [of test_context "\<lparr>URI = ''did:key:old''\<rparr>" test_anchorMethods 100]
      GetAnchor_cases [of test_context "\<lparr>URI = ''did:foo:bar''\<rparr>" test_anchorMethods 100]
      GetAnchor_cases [of test_context "\<lparr>URI = ''did:web:example.com''\<rparr>" test_anchorMethods 100]
      old foo web GetAnchorForDID_foo GetAnchorForDID_web
    by (simp add: NewAnchor_def)
qed

text \<open>A second lookup is served from the cache.\<close>

lemma GetAnchor_twice:
  assumes "GetAnchor M now ctx did = (Inr a, ctx', calls)" and "anchor_did a = did \<or> anchors ctx did \<noteq> None"
  shows "\<exists>ctx''. GetAnchor M now' ctx' did = (Inr a, ctx'', [])"
  using assms
  by (auto simp: GetAnchor_def getAnchor_def AddAnchor_def split: option.splits sum.splits)

text \<open>The anchor the key method resolves carries the DID it was asked for.\<close>

lemma makeKeyAnchor_did: "makeKeyAnchor L did = Inr a \<Longrightarrow> anchor_did a = did"
  by (auto simp: makeKeyAnchor_def NewAnchor_def split: sum.splits)

end
